theory Spec2Isabelle
  imports Complex_Main "HOL-Library.Log_Nat" "HOL-Library.AList"
begin

section \<open>Python numbers as the mock provider uses them\<close>

text \<open>
  The mock provider computes \<^verbatim>\<open>max(0, 10 - server_capacity * 1.5)\<close> and
  \<^verbatim>\<open>min(100, 50 + server_capacity * 8)\<close> on a Python \<^verbatim>\<open>int\<close>. Python ints are
  unbounded (\<open>int\<close>); a Python float is an IEEE binary64 value, modelled by the rational
  it denotes, the two infinities and NaN. The sign of a zero is not tracked: no comparison
  of the program tells \<^verbatim>\<open>-0.0\<close> from \<^verbatim>\<open>0.0\<close>.
\<close>

datatype py_error = OverflowError | ValueError

datatype float64 = Finite rat | PosInf | NegInf | NaN

datatype pynum = PInt int | PFloat float64

text \<open>
  \<open>ilog2 x\<close> is the binary exponent of a positive rational:
  \<open>2 powi e \<le> x < 2 powi (e + 1)\<close>.
\<close>

definition ilog2 :: "rat \<Rightarrow> int" where
  "ilog2 x = (if 1 \<le> x then int (floorlog 2 (nat \<lfloor>x\<rfloor>)) - 1
              else - int (ceillog2 (nat \<lceil>1 / x\<rceil>)))"

definition round_half_even :: "rat \<Rightarrow> int" where
  "round_half_even x = (let f = \<lfloor>x\<rfloor>; d = x - of_int f
     in if d < 1 / 2 then f else if 1 / 2 < d then f + 1
        else if even f then f else f + 1)"

text \<open>
  Rounding of an exact result to binary64: 53 significant bits, ties to even, subnormals
  below \<open>2 powi - 1022\<close>, overflow to an infinity from \<open>2 ^ 1024\<close> on.
\<close>

definition round_binary64 :: "rat \<Rightarrow> float64" where
  "round_binary64 x =
     (if x = 0 then Finite 0
      else let ulp = 2 powi (max (ilog2 \<bar>x\<bar>) (- 1022) - 52);
               r = of_int (round_half_even (\<bar>x\<bar> / ulp)) * ulp
           in if 2 ^ 1024 \<le> r then (if 0 < x then PosInf else NegInf)
              else Finite (sgn x * r))"

text \<open>
  Conversion of an int operand to float, as \<^verbatim>\<open>int * float\<close>, \<^verbatim>\<open>int - float\<close> and the
  \<^verbatim>\<open>.2f\<close> format do it: an int that rounds out of the finite range raises
  \<^verbatim>\<open>OverflowError: int too large to convert to float\<close>.
\<close>

definition float_of_int :: "int \<Rightarrow> py_error + float64" where
  "float_of_int n = (case round_binary64 (of_int n) of
                       Finite r \<Rightarrow> Inr (Finite r)
                     | _ \<Rightarrow> Inl OverflowError)"

fun float_mul :: "float64 \<Rightarrow> float64 \<Rightarrow> float64" where
  "float_mul (Finite a) (Finite b) = round_binary64 (a * b)"
| "float_mul NaN _ = NaN"
| "float_mul _ NaN = NaN"
| "float_mul (Finite a) PosInf = (if a = 0 then NaN else if 0 < a then PosInf else NegInf)"
| "float_mul (Finite a) NegInf = (if a = 0 then NaN else if 0 < a then NegInf else PosInf)"
| "float_mul PosInf (Finite b) = (if b = 0 then NaN else if 0 < b then PosInf else NegInf)"
| "float_mul NegInf (Finite b) = (if b = 0 then NaN else if 0 < b then NegInf else PosInf)"
| "float_mul PosInf PosInf = PosInf"
| "float_mul NegInf NegInf = PosInf"
| "float_mul PosInf NegInf = NegInf"
| "float_mul NegInf PosInf = NegInf"

fun float_sub :: "float64 \<Rightarrow> float64 \<Rightarrow> float64" where
  "float_sub (Finite a) (Finite b) = round_binary64 (a - b)"
| "float_sub NaN _ = NaN"
| "float_sub _ NaN = NaN"
| "float_sub (Finite a) PosInf = NegInf"
| "float_sub (Finite a) NegInf = PosInf"
| "float_sub PosInf (Finite b) = PosInf"
| "float_sub NegInf (Finite b) = NegInf"
| "float_sub PosInf PosInf = NaN"
| "float_sub NegInf NegInf = NaN"
| "float_sub PosInf NegInf = PosInf"
| "float_sub NegInf PosInf = NegInf"

fun float_less :: "float64 \<Rightarrow> float64 \<Rightarrow> bool" where
  "float_less (Finite a) (Finite b) = (a < b)"
| "float_less NaN _ = False"
| "float_less _ NaN = False"
| "float_less _ NegInf = False"
| "float_less PosInf _ = False"
| "float_less NegInf _ = True"
| "float_less (Finite a) PosInf = True"

text \<open>Python compares an int with a float exactly, without converting the int.\<close>

fun exact :: "pynum \<Rightarrow> float64" where
  "exact (PInt i) = Finite (of_int i)"
| "exact (PFloat x) = x"

definition py_less :: "pynum \<Rightarrow> pynum \<Rightarrow> bool" where
  "py_less a b = float_less (exact a) (exact b)"

fun float_le :: "float64 \<Rightarrow> float64 \<Rightarrow> bool" where
  "float_le (Finite a) (Finite b) = (a \<le> b)"
| "float_le NaN _ = False"
| "float_le _ NaN = False"
| "float_le NegInf _ = True"
| "float_le _ PosInf = True"
| "float_le PosInf _ = False"
| "float_le (Finite a) NegInf = False"

definition py_le :: "pynum \<Rightarrow> pynum \<Rightarrow> bool" where
  "py_le a b = float_le (exact a) (exact b)"

text \<open>\<^verbatim>\<open>max(a, b)\<close> keeps \<open>a\<close> unless \<open>b > a\<close>; \<^verbatim>\<open>min(a, b)\<close> keeps \<open>a\<close> unless \<open>b < a\<close>.\<close>

definition py_max :: "pynum \<Rightarrow> pynum \<Rightarrow> pynum" where
  "py_max a b = (if py_less a b then b else a)"

definition py_min :: "pynum \<Rightarrow> pynum \<Rightarrow> pynum" where
  "py_min a b = (if py_less b a then b else a)"

fun as_float :: "pynum \<Rightarrow> py_error + float64" where
  "as_float (PInt i) = float_of_int i"
| "as_float (PFloat x) = Inr x"

fun py_mul :: "pynum \<Rightarrow> pynum \<Rightarrow> py_error + pynum" where
  "py_mul (PInt a) (PInt b) = Inr (PInt (a * b))"
| "py_mul a b =
     (case as_float a of Inl e \<Rightarrow> Inl e
      | Inr x \<Rightarrow> (case as_float b of Inl e \<Rightarrow> Inl e
                  | Inr y \<Rightarrow> Inr (PFloat (float_mul x y))))"

fun py_sub :: "pynum \<Rightarrow> pynum \<Rightarrow> py_error + pynum" where
  "py_sub (PInt a) (PInt b) = Inr (PInt (a - b))"
| "py_sub a b =
     (case as_float a of Inl e \<Rightarrow> Inl e
      | Inr x \<Rightarrow> (case as_float b of Inl e \<Rightarrow> Inl e
                  | Inr y \<Rightarrow> Inr (PFloat (float_sub x y))))"


fun float_add :: "float64 \<Rightarrow> float64 \<Rightarrow> float64" where
  "float_add (Finite a) (Finite b) = round_binary64 (a + b)"
| "float_add NaN _ = NaN"
| "float_add _ NaN = NaN"
| "float_add (Finite a) PosInf = PosInf"
| "float_add (Finite a) NegInf = NegInf"
| "float_add PosInf (Finite b) = PosInf"
| "float_add NegInf (Finite b) = NegInf"
| "float_add PosInf PosInf = PosInf"
| "float_add NegInf NegInf = NegInf"
| "float_add PosInf NegInf = NaN"
| "float_add NegInf PosInf = NaN"

fun py_add :: "pynum \<Rightarrow> pynum \<Rightarrow> py_error + pynum" where
  "py_add (PInt a) (PInt b) = Inr (PInt (a + b))"
| "py_add a b =
     (case as_float a of Inl e \<Rightarrow> Inl e
      | Inr x \<Rightarrow> (case as_float b of Inl e \<Rightarrow> Inl e
                  | Inr y \<Rightarrow> Inr (PFloat (float_add x y))))"

text \<open>The format \<^verbatim>\<open>{n:04d}\<close> of an int: decimal digits, padded with zeros to width 4, sign first.\<close>

fun digits10 :: "nat \<Rightarrow> string" where
  "digits10 n = (if n < 10 then [''0123456789'' ! n]
                 else digits10 (n div 10) @ [''0123456789'' ! (n mod 10)])"

declare digits10.simps [simp del]

definition format_04d :: "int \<Rightarrow> string" where
  "format_04d i = (let sign = (if i < 0 then ''-'' else []); ds = digits10 (nat \<bar>i\<bar>)
                   in sign @ replicate (4 - length sign - length ds) (CHR ''0'') @ ds)"

text \<open>
  The format \<^verbatim>\<open>{x:.2f}\<close> is used for log lines only, so the text is dropped; what is kept is
  that formatting an int converts it to float first and can raise.
\<close>

definition format_2f :: "pynum \<Rightarrow> py_error + unit" where
  "format_2f v = (case as_float v of Inl e \<Rightarrow> Inl e | Inr _ \<Rightarrow> Inr ())"

text \<open>
  The plain format \<^verbatim>\<open>{n}\<close> of an int in an f-string, also used for log lines only:
  CPython refuses to convert an int of more than 4300 decimal digits to a string and
  raises \<^verbatim>\<open>ValueError: Exceeds the limit (4300 digits) for integer string conversion\<close>.
  The sign is not counted. A float is always converted.
\<close>

definition int_max_str_digits :: nat where
  "int_max_str_digits = 4300"

definition format_int :: "int \<Rightarrow> py_error + unit" where
  "format_int n = (if 10 ^ int_max_str_digits \<le> \<bar>n\<bar> then Inl ValueError else Inr ())"

fun format_plain :: "pynum \<Rightarrow> py_error + unit" where
  "format_plain (PInt n) = format_int n"
| "format_plain (PFloat x) = Inr ()"

section \<open>The mock provider (cw3/app/dependencies.py)\<close>

text \<open>
  Field names carry a prefix where two classes of the source share a name (\<^verbatim>\<open>id\<close>,
  \<^verbatim>\<open>name\<close>), since record fields of one theory live in one name space.
\<close>

record MockModelVersion =
  mv_id :: string
  mv_name :: string
  mv_number :: int

definition MockModelVersion_init :: "string \<Rightarrow> string \<Rightarrow> MockModelVersion" where
  "MockModelVersion_init model_id name =
     \<lparr>mv_id = ''version_'' @ model_id, mv_name = name, mv_number = 1\<rparr>"

record MockModel =
  mm_id :: string
  mm_name :: string
  mm_latest_version :: "MockModelVersion option"

definition MockModel_init :: "string \<Rightarrow> string \<Rightarrow> MockModel" where
  "MockModel_init model_id name =
     \<lparr>mm_id = model_id, mm_name = name,
      mm_latest_version = Some (MockModelVersion_init model_id name)\<rparr>"

text \<open>Python dicts keep insertion order; both dicts of the mock are association lists.\<close>

record MockInputs =
  params :: "(string \<times> pynum) list"

definition MockInputs_init :: MockInputs where
  "MockInputs_init = \<lparr>params = []\<rparr>"

record MockOutputs =
  out_server_capacity :: pynum
  data :: "(string \<times> pynum) list"

definition MockOutputs_init :: "pynum \<Rightarrow> py_error + MockOutputs" where
  "MockOutputs_init server_capacity =
     (case py_mul server_capacity (PFloat (Finite (3 / 2))) of Inl e \<Rightarrow> Inl e
      | Inr a \<Rightarrow>
     (case py_sub (PInt 10) a of Inl e \<Rightarrow> Inl e
      | Inr b \<Rightarrow>
     (case py_mul server_capacity (PInt 8) of Inl e \<Rightarrow> Inl e
      | Inr c \<Rightarrow>
     (case py_add (PInt 50) c of Inl e \<Rightarrow> Inl e
      | Inr d \<Rightarrow>
        Inr \<lparr>out_server_capacity = server_capacity,
             data = [(''Mean queue size|Mean queue size'', py_max (PInt 0) b),
                     (''Utilization|Server utilization'', py_min (PInt 100) d)]\<rparr>))))"

text \<open>\<^verbatim>\<open>self.data.get(key, 0.0)\<close>: a missing key gives the float \<open>0.0\<close>, never an error.\<close>

definition "value" :: "MockOutputs \<Rightarrow> string \<Rightarrow> pynum" where
  "value outputs key = (case map_of (data outputs) key of
                          None \<Rightarrow> PFloat (Finite 0) | Some v \<Rightarrow> v)"

definition get_raw_outputs :: "MockOutputs \<Rightarrow> (string \<times> pynum) list" where
  "get_raw_outputs outputs = data outputs"

record MockSimulation =
  sim_id :: string
  sim_inputs :: MockInputs

record MockCloudClient =
  api_key :: string
  simulation_counter :: int

definition MockCloudClient_init :: "string \<Rightarrow> MockCloudClient" where
  "MockCloudClient_init key = \<lparr>api_key = key, simulation_counter = 0\<rparr>"

text \<open>
  Each operation of the client, and of the inputs and simulation objects it hands out,
  is recorded in a log beside the client: the log is not in the source, it is what makes
  ``no provider operation was invoked'' a statement about a state.
\<close>

datatype provider_call =
    GetModels
  | GetLatestModelVersion string
  | CreateInputsFromExperiment string
  | SetInput string pynum
  | CreateSimulation
  | GetOutputsAndRunIfAbsent string

record provider =
  client :: MockCloudClient
  calls :: "provider_call list"

definition logged :: "provider_call \<Rightarrow> provider \<Rightarrow> provider" where
  "logged c p = p\<lparr>calls := calls p @ [c]\<rparr>"

definition get_models :: "provider \<Rightarrow> MockModel list \<times> provider" where
  "get_models p =
     ([MockModel_init ''model_1'' ''Service System Demo'',
       MockModel_init ''model_2'' ''Manufacturing Line Demo'',
       MockModel_init ''model_3'' ''Supply Chain Demo''],
      logged GetModels p)"

definition get_latest_model_version :: "string \<Rightarrow> provider \<Rightarrow> MockModelVersion \<times> provider" where
  "get_latest_model_version model_name p =
     (MockModelVersion_init ''latest'' model_name, logged (GetLatestModelVersion model_name) p)"

definition create_inputs_from_experiment ::
  "MockModelVersion \<Rightarrow> string \<Rightarrow> provider \<Rightarrow> MockInputs \<times> provider" where
  "create_inputs_from_experiment version experiment_name p =
     (MockInputs_init, logged (CreateInputsFromExperiment experiment_name) p)"

text \<open>
  \<^verbatim>\<open>set_input\<close> stores the value and then logs it with \<^verbatim>\<open>{value}\<close>; when the log line
  raises, the caller never sees the inputs again.
\<close>

definition set_input ::
  "MockInputs \<Rightarrow> string \<Rightarrow> pynum \<Rightarrow> provider \<Rightarrow> (py_error + MockInputs) \<times> provider" where
  "set_input inputs name v p =
     (case format_plain v of
        Inl e \<Rightarrow> Inl e
      | Inr _ \<Rightarrow> Inr (inputs\<lparr>params := AList.update name v (params inputs)\<rparr>),
      logged (SetInput name v) p)"

definition create_simulation :: "MockInputs \<Rightarrow> provider \<Rightarrow> MockSimulation \<times> provider" where
  "create_simulation inputs p =
     (let counter = simulation_counter (client p) + 1;
          p' = p\<lparr>client := (client p)\<lparr>simulation_counter := counter\<rparr>\<rparr>
      in (\<lparr>sim_id = ''sim_'' @ format_04d counter, sim_inputs = inputs\<rparr>,
          logged CreateSimulation p'))"

definition get_outputs_and_run_if_absent ::
  "MockSimulation \<Rightarrow> provider \<Rightarrow> (py_error + MockOutputs) \<times> provider" where
  "get_outputs_and_run_if_absent simulation p =
     (let server_capacity =
            (case map_of (params (sim_inputs simulation)) ''Server capacity'' of
               None \<Rightarrow> PInt 1 | Some v \<Rightarrow> v)
      in (MockOutputs_init server_capacity,
          logged (GetOutputsAndRunIfAbsent (sim_id simulation)) p))"

definition get_cloud_client :: provider where
  "get_cloud_client = \<lparr>client = MockCloudClient_init ''DEMO_KEY'', calls = []\<rparr>"


section \<open>Request and response models (cw3/app/models.py)\<close>

record SimulationRequest =
  server_capacity :: int
  model_name :: string
  experiment_name :: string

type_synonym datetime = nat

record SimulationResponse =
  simulation_id :: string
  resp_server_capacity :: int
  mean_queue_size :: float64
  server_utilization :: float64
  raw_outputs :: "(string \<times> pynum) list"
  status :: string
  timestamp :: "datetime option"

record ModelInfo =
  mi_id :: string
  mi_name :: string
  mi_latest_version_id :: "string option"
  mi_version_name :: "string option"
  mi_version_number :: "int option"

text \<open>
  A field of a request body, as decoded from JSON and before validation: absent, present
  with a value that is not of the field's type, or present with a value of that type.
\<close>

datatype 'a body_field = Missing | Malformed | Given 'a

record SimulationRequest_body =
  body_server_capacity :: "int body_field"
  body_model_name :: "string body_field"
  body_experiment_name :: "string body_field"

datatype validation_error =
    FieldRequired string
  | WrongType string
  | NotGreaterThan string int

text \<open>
  The declaration \<^verbatim>\<open>server_capacity: int = Field(..., gt=0)\<close>: the field is required and
  must be strictly positive. The two names have defaults.
\<close>

fun validate_server_capacity :: "int body_field \<Rightarrow> validation_error list + int" where
  "validate_server_capacity Missing = Inl [FieldRequired ''server_capacity'']"
| "validate_server_capacity Malformed = Inl [WrongType ''server_capacity'']"
| "validate_server_capacity (Given n) =
     (if 0 < n then Inr n else Inl [NotGreaterThan ''server_capacity'' 0])"

fun validate_str :: "string \<Rightarrow> string \<Rightarrow> string body_field \<Rightarrow> validation_error list + string" where
  "validate_str field dflt Missing = Inr dflt"
| "validate_str field dflt Malformed = Inl [WrongType field]"
| "validate_str field dflt (Given s) = Inr s"

fun errors_of :: "validation_error list + 'a \<Rightarrow> validation_error list" where
  "errors_of (Inl es) = es"
| "errors_of (Inr _) = []"

definition SimulationRequest_validate ::
  "SimulationRequest_body \<Rightarrow> validation_error list + SimulationRequest" where
  "SimulationRequest_validate body =
     (let c = validate_server_capacity (body_server_capacity body);
          m = validate_str ''model_name'' ''Service System Demo'' (body_model_name body);
          e = validate_str ''experiment_name'' ''Simulation'' (body_experiment_name body)
      in case (c, m, e) of
           (Inr n, Inr mn, Inr en) \<Rightarrow>
             Inr \<lparr>server_capacity = n, model_name = mn, experiment_name = en\<rparr>
         | _ \<Rightarrow> Inl (errors_of c @ errors_of m @ errors_of e))"

section \<open>The simulation endpoints (cw3/app/routers/simulations.py)\<close>

text \<open>
  The detail texts of the source are Russian sentences; each is named by a constructor,
  with the formatted argument where the source formats one in.
\<close>

datatype detail =
    CapacityNotPositive
  | SimulationFailed py_error
  | ModelNotFound string
  | RequestInvalid "validation_error list"
  | ItemNotFound

datatype http_exception = HTTPException (status_code: nat) (detail: detail)

text \<open>
  What a handler raises: an \<^verbatim>\<open>HTTPException\<close>, which the framework answers with its
  status code, or any other Python exception.
\<close>

datatype raised = Http http_exception | Py py_error

text \<open>
  The \<^verbatim>\<open>try\<close> block of \<^verbatim>\<open>run_simulation\<close>: the check of \<^verbatim>\<open>server_capacity\<close> comes
  first and logs the number before it raises; step 3 logs the number again; the two
  metrics are logged with \<^verbatim>\<open>.2f\<close>. \<open>now\<close> stands for \<^verbatim>\<open>datetime.now()\<close>.
\<close>

definition run_simulation_try ::
  "SimulationRequest \<Rightarrow> provider \<Rightarrow> datetime \<Rightarrow> (raised + SimulationResponse) \<times> provider" where
  "run_simulation_try request p now =
     (if server_capacity request \<le> 0 then
        (case format_int (server_capacity request) of
           Inl e \<Rightarrow> (Inl (Py e), p)
         | Inr _ \<Rightarrow> (Inl (Http (HTTPException 400 CapacityNotPositive)), p))
      else
        let (version, p1) = get_latest_model_version (model_name request) p;
            (inputs, p2) = create_inputs_from_experiment version (experiment_name request) p1
        in (case format_int (server_capacity request) of
              Inl e \<Rightarrow> (Inl (Py e), p2)
            | Inr _ \<Rightarrow>
           (case set_input inputs ''Server capacity'' (PInt (server_capacity request)) p2 of
              (Inl e, p3) \<Rightarrow> (Inl (Py e), p3)
            | (Inr inputs', p3) \<Rightarrow>
                let (simulation, p4) = create_simulation inputs' p3;
                    (r, p5) = get_outputs_and_run_if_absent simulation p4
                in (case r of
                      Inl e \<Rightarrow> Inl (Py e)
                    | Inr outputs \<Rightarrow>
                        let mean_queue = value outputs ''Mean queue size|Mean queue size'';
                            utilization = value outputs ''Utilization|Server utilization''
                        in (case format_2f mean_queue of
                              Inl e \<Rightarrow> Inl (Py e)
                            | Inr _ \<Rightarrow>
                           (case format_2f utilization of
                              Inl e \<Rightarrow> Inl (Py e)
                            | Inr _ \<Rightarrow>
                           (case as_float mean_queue of
                              Inl e \<Rightarrow> Inl (Py e)
                            | Inr q \<Rightarrow>
                           (case as_float utilization of
                              Inl e \<Rightarrow> Inl (Py e)
                            | Inr u \<Rightarrow>
                                Inr \<lparr>simulation_id = sim_id simulation,
                                     resp_server_capacity = server_capacity request,
                                     mean_queue_size = q,
                                     server_utilization = u,
                                     raw_outputs = get_raw_outputs outputs,
                                     status = ''completed'',
                                     timestamp = Some now\<rparr>)))),
                    p5))))"

text \<open>
  \<^verbatim>\<open>run_simulation\<close>: the first log line formats \<^verbatim>\<open>server_capacity\<close> before the
  \<^verbatim>\<open>try\<close>, so what it raises leaves the handler as it is. Of what the \<^verbatim>\<open>try\<close> block
  raises, an \<^verbatim>\<open>HTTPException\<close> is re-raised unchanged and every other exception becomes
  an \<^verbatim>\<open>HTTPException\<close> with status 500.
\<close>

definition run_simulation ::
  "SimulationRequest \<Rightarrow> provider \<Rightarrow> datetime \<Rightarrow> (raised + SimulationResponse) \<times> provider" where
  "run_simulation request p now =
     (case format_int (server_capacity request) of
        Inl e \<Rightarrow> (Inl (Py e), p)
      | Inr _ \<Rightarrow>
          (case run_simulation_try request p now of
             (Inl (Http h), p') \<Rightarrow> (Inl (Http h), p')
           | (Inl (Py e), p') \<Rightarrow> (Inl (Http (HTTPException 500 (SimulationFailed e))), p')
           | (Inr response, p') \<Rightarrow> (Inr response, p')))"

text \<open>
  The route \<^verbatim>\<open>POST /api/v1/simulations/run\<close>: the body is validated against
  \<^verbatim>\<open>SimulationRequest\<close> before the handler runs (a failure is answered with 422), and
  \<^verbatim>\<open>Depends(get_cloud_client)\<close> makes a new client for the request.
\<close>

definition post_simulations_run ::
  "SimulationRequest_body \<Rightarrow> datetime \<Rightarrow> (raised + SimulationResponse) \<times> provider" where
  "post_simulations_run body now =
     (case SimulationRequest_validate body of
        Inl errs \<Rightarrow> (Inl (Http (HTTPException 422 (RequestInvalid errs))), get_cloud_client)
      | Inr request \<Rightarrow> run_simulation request get_cloud_client now)"

definition basic_info :: "MockModel \<Rightarrow> ModelInfo" where
  "basic_info model =
     \<lparr>mi_id = mm_id model, mi_name = mm_name model,
      mi_latest_version_id = (case mm_latest_version model of
                                None \<Rightarrow> None | Some v \<Rightarrow> Some (mv_id v)),
      mi_version_name = None, mi_version_number = None\<rparr>"

definition list_info :: "bool \<Rightarrow> MockModel \<Rightarrow> ModelInfo" where
  "list_info include_versions model =
     (let model_info = basic_info model
      in case mm_latest_version model of
           Some v \<Rightarrow> if include_versions
                     then model_info\<lparr>mi_version_name := Some (mv_name v),
                                     mi_version_number := Some (mv_number v)\<rparr>
                     else model_info
         | None \<Rightarrow> model_info)"

text \<open>The loop of \<^verbatim>\<open>get_models\<close>, appending to \<^verbatim>\<open>result\<close>.\<close>

fun list_loop :: "bool \<Rightarrow> MockModel list \<Rightarrow> ModelInfo list \<Rightarrow> ModelInfo list" where
  "list_loop include_versions [] result = result"
| "list_loop include_versions (model # models) result =
     list_loop include_versions models (result @ [list_info include_versions model])"

text \<open>
  The handler of \<^verbatim>\<open>GET /simulations/models\<close>. Its \<^verbatim>\<open>except Exception\<close> branch is
  kept in the type; nothing in the \<^verbatim>\<open>try\<close> block raises with the mock client.
\<close>

definition get_models_handler ::
  "provider \<Rightarrow> bool \<Rightarrow> (http_exception + ModelInfo list) \<times> provider" where
  "get_models_handler p include_versions =
     (let (models, p1) = get_models p
      in (Inr (list_loop include_versions models []), p1))"

definition detail_info :: "MockModel \<Rightarrow> ModelInfo" where
  "detail_info model =
     \<lparr>mi_id = mm_id model, mi_name = mm_name model,
      mi_latest_version_id = (case mm_latest_version model of
                                None \<Rightarrow> None | Some v \<Rightarrow> Some (mv_id v)),
      mi_version_name = (case mm_latest_version model of
                           None \<Rightarrow> None | Some v \<Rightarrow> Some (mv_name v)),
      mi_version_number = (case mm_latest_version model of
                             None \<Rightarrow> None | Some v \<Rightarrow> Some (mv_number v))\<rparr>"

text \<open>The loop of \<^verbatim>\<open>get_model_by_id\<close>: it returns at the first model with the id.\<close>

fun lookup_loop :: "string \<Rightarrow> MockModel list \<Rightarrow> http_exception + ModelInfo" where
  "lookup_loop model_id [] = Inl (HTTPException 404 (ModelNotFound model_id))"
| "lookup_loop model_id (model # models) =
     (if mm_id model = model_id then Inr (detail_info model)
      else lookup_loop model_id models)"

definition get_model_by_id ::
  "string \<Rightarrow> provider \<Rightarrow> (http_exception + ModelInfo) \<times> provider" where
  "get_model_by_id model_id p =
     (let (models, p1) = get_models p
      in (lookup_loop model_id models, p1))"


section \<open>The item service (cw4)\<close>

subsection \<open>Schemas (cw4/schemas.py)\<close>

record ItemCreate =
  c_title :: string
  c_description :: "string option"
  c_price :: "int option"

record ItemUpdate =
  u_title :: "string option"
  u_description :: "string option"
  u_price :: "int option"

record Item =
  item_id :: int
  title :: string
  description :: "string option"
  price :: "int option"

subsection \<open>The store (crud module, not among the sources)\<close>

text \<open>
  \<^verbatim>\<open>main.py\<close> calls \<^verbatim>\<open>crud.create_item\<close>, \<^verbatim>\<open>crud.get_items\<close>, \<^verbatim>\<open>crud.get_item\<close>,
  \<^verbatim>\<open>crud.update_item\<close> and \<^verbatim>\<open>crud.delete_item\<close>; the module that defines them and the
  table behind it are not among the source files. The five definitions below stand for it.
  The store is the sequence of its rows in store order.
\<close>

type_synonym store = "Item list"

definition new_id :: "store \<Rightarrow> int" where
  \<comment> \<open>Modelled from the spec: the identifier that \<^verbatim>\<open>crud.create_item\<close> assigns, ``a new
      identifier'' of a store ``with auto-incrementing identifiers'': one more than the
      largest identifier in the store, 1 in an empty store.\<close>
  "new_id db = foldr max (map item_id db) 0 + 1"

definition crud_create_item :: "store \<Rightarrow> ItemCreate \<Rightarrow> Item \<times> store" where
  \<comment> \<open>Modelled from the spec: \<^verbatim>\<open>crud.create_item\<close>, ``accepts required title plus optional
      fields; assigns a new identifier; returns the stored record''.\<close>
  "crud_create_item db item =
     (let row = \<lparr>item_id = new_id db, title = c_title item,
                 description = c_description item, price = c_price item\<rparr>
      in (row, db @ [row]))"

definition crud_get_items :: "store \<Rightarrow> int \<Rightarrow> int \<Rightarrow> Item list" where
  \<comment> \<open>Modelled from the spec: \<^verbatim>\<open>crud.get_items\<close>, ``accepts pagination offset/limit; returns
      a sequence of records in store-native order''.\<close>
  "crud_get_items db skip limit = take (nat limit) (drop (nat skip) db)"

definition crud_get_item :: "store \<Rightarrow> int \<Rightarrow> Item option" where
  \<comment> \<open>Modelled from the spec: \<^verbatim>\<open>crud.get_item\<close>, ``returns the record or a not found
      kind''.\<close>
  "crud_get_item db i = find (\<lambda>row. item_id row = i) db"

definition apply_update :: "ItemUpdate \<Rightarrow> Item \<Rightarrow> Item" where
  \<comment> \<open>Modelled from the spec: the partial update of \<^verbatim>\<open>crud.update_item\<close>, ``only present
      fields overwrite''; a field of \<^verbatim>\<open>ItemUpdate\<close> that is \<^verbatim>\<open>None\<close> is not present.\<close>
  "apply_update item row =
     row\<lparr>title := (case u_title item of None \<Rightarrow> title row | Some t \<Rightarrow> t),
         description := (case u_description item of None \<Rightarrow> description row | Some d \<Rightarrow> Some d),
         price := (case u_price item of None \<Rightarrow> price row | Some n \<Rightarrow> Some n)\<rparr>"

definition crud_update_item :: "store \<Rightarrow> int \<Rightarrow> ItemUpdate \<Rightarrow> Item option \<times> store" where
  \<comment> \<open>Modelled from the spec: \<^verbatim>\<open>crud.update_item\<close>, ``returns the updated record or not
      found if the id does not exist''; the row is changed in place.\<close>
  "crud_update_item db i item =
     (case crud_get_item db i of
        None \<Rightarrow> (None, db)
      | Some row \<Rightarrow>
          (Some (apply_update item row),
           map (\<lambda>r. if item_id r = i then apply_update item r else r) db))"

definition crud_delete_item :: "store \<Rightarrow> int \<Rightarrow> bool \<times> store" where
  \<comment> \<open>Modelled from the spec: \<^verbatim>\<open>crud.delete_item\<close>, ``removes the record; returns
      success/not found''.\<close>
  "crud_delete_item db i =
     (case crud_get_item db i of
        None \<Rightarrow> (False, db)
      | Some _ \<Rightarrow> (True, filter (\<lambda>r. item_id r \<noteq> i) db))"

subsection \<open>The handlers (cw4/main.py)\<close>

definition create_item :: "ItemCreate \<Rightarrow> store \<Rightarrow> (http_exception + Item) \<times> store" where
  "create_item item db = (let (row, db') = crud_create_item db item in (Inr row, db'))"

definition read_items :: "int \<Rightarrow> int \<Rightarrow> store \<Rightarrow> Item list" where
  "read_items skip limit db = crud_get_items db skip limit"

definition read_item :: "int \<Rightarrow> store \<Rightarrow> http_exception + Item" where
  "read_item i db =
     (case crud_get_item db i of
        None \<Rightarrow> Inl (HTTPException 404 ItemNotFound)
      | Some db_item \<Rightarrow> Inr db_item)"

definition update_item :: "int \<Rightarrow> ItemUpdate \<Rightarrow> store \<Rightarrow> (http_exception + Item) \<times> store" where
  "update_item i item db =
     (case crud_update_item db i item of
        (None, db') \<Rightarrow> (Inl (HTTPException 404 ItemNotFound), db')
      | (Some db_item, db') \<Rightarrow> (Inr db_item, db'))"

definition delete_item :: "int \<Rightarrow> store \<Rightarrow> (http_exception + string) \<times> store" where
  "delete_item i db =
     (case crud_delete_item db i of
        (False, db') \<Rightarrow> (Inl (HTTPException 404 ItemNotFound), db')
      | (True, db') \<Rightarrow> (Inr ''Item deleted successfully'', db'))"


section \<open>Properties of the float model\<close>

text \<open>
  The exponent found for a rational from 1 on is the right one, rounding moves a value by at
  most half a unit in the last place, an int below \<open>2 ^ 1024 - 2 ^ 970\<close> in absolute
  value converts to a finite float, and a value with at most 53 significant bits is
  its own rounding.
\<close>

lemma ilog2_bounds_ge1:
  assumes "1 \<le> x"
  shows "0 \<le> ilog2 x \<and> 2 powi ilog2 x \<le> x \<and> x < 2 powi (ilog2 x + 1)"
proof -
  define m where "m = nat \<lfloor>x\<rfloor>"
  define w where "w = floorlog 2 m"
  have fl: "1 \<le> \<lfloor>x\<rfloor>" using assms by (simp add: le_floor_iff)
  then have m: "0 < m" "int m = \<lfloor>x\<rfloor>" by (simp_all add: m_def)
  from floorlog_bounds [of m 2] m(1)
  have b: "2 ^ (w - 1) \<le> m" "m < 2 ^ w" by (simp_all add: w_def)
  have w: "0 < w" using m(1) by (simp add: w_def floorlog_def)
  have e: "ilog2 x = int (w - 1)" "ilog2 x + 1 = int w"
    using assms w by (simp_all add: ilog2_def w_def m_def)
  have "(2::rat) ^ (w - 1) \<le> of_nat m"
    using b(1) by (metis of_nat_le_iff of_nat_numeral of_nat_power)
  also have "(of_nat m :: rat) = of_int \<lfloor>x\<rfloor>" using m(2) by (metis of_int_of_nat_eq)
  also have "\<dots> \<le> x" by simp
  finally have lo: "2 ^ (w - 1) \<le> x" .
  have "\<lfloor>x\<rfloor> + 1 \<le> 2 ^ w"
    using b(2) m(2) by (metis of_nat_less_iff of_nat_numeral of_nat_power zless_imp_add1_zle)
  then have "(of_int (\<lfloor>x\<rfloor> + 1) :: rat) \<le> of_int (2 ^ w)"
    by (simp only: of_int_le_iff)
  moreover have "x < of_int (\<lfloor>x\<rfloor> + 1)" using floor_correct [of x] by blast
  ultimately have hi: "x < 2 ^ w" by simp
  have p1: "(2::rat) powi ilog2 x = 2 ^ (w - 1)"
    by (simp only: e(1) power_int_of_nat)
  have p2: "(2::rat) powi (ilog2 x + 1) = 2 ^ w"
    by (simp only: e(2) power_int_of_nat)
  have "0 \<le> ilog2 x" by (simp add: e(1))
  then show ?thesis
    using lo hi by (simp add: p1 p2)
qed

lemma powi_le_less_unique:
  fixes x :: rat
  assumes "2 powi e \<le> x" "x < 2 powi (e + 1)" "2 powi e' \<le> x" "x < 2 powi (e' + 1)"
  shows "e = e'"
proof (rule ccontr)
  assume "e \<noteq> e'"
  then consider "e + 1 \<le> e'" | "e' + 1 \<le> e" by linarith
  then show False
  proof cases
    case 1
    then have "(2::rat) powi (e + 1) \<le> 2 powi e'" by (intro power_int_increasing) simp_all
    with assms show False by linarith
  next
    case 2
    then have "(2::rat) powi (e' + 1) \<le> 2 powi e" by (intro power_int_increasing) simp_all
    with assms show False by linarith
  qed
qed

lemma ilog2_eqI_ge1:
  assumes "1 \<le> x" "2 powi e \<le> x" "x < 2 powi (e + 1)"
  shows "ilog2 x = e"
  using ilog2_bounds_ge1 [OF assms(1)] assms(2,3) powi_le_less_unique by blast

lemma round_half_even_le: "of_int (round_half_even q) \<le> q + 1 / 2"
proof -
  have f: "of_int \<lfloor>q\<rfloor> \<le> q" by (rule of_int_floor_le)
  consider "q - of_int \<lfloor>q\<rfloor> < 1 / 2" | "1 / 2 < q - of_int \<lfloor>q\<rfloor>"
    | "q - of_int \<lfloor>q\<rfloor> = 1 / 2" by linarith
  then show ?thesis
  proof cases
    case 1
    then have r: "round_half_even q = \<lfloor>q\<rfloor>" by (simp add: round_half_even_def Let_def)
    show ?thesis unfolding r using f by linarith
  next
    case 2
    then have r: "round_half_even q = \<lfloor>q\<rfloor> + 1" by (simp add: round_half_even_def Let_def)
    show ?thesis unfolding r using 2 by simp
  next
    case 3
    then have "round_half_even q = \<lfloor>q\<rfloor> \<or> round_half_even q = \<lfloor>q\<rfloor> + 1"
      by (simp add: round_half_even_def Let_def)
    then show ?thesis
    proof
      assume r: "round_half_even q = \<lfloor>q\<rfloor>"
      show ?thesis unfolding r using f by linarith
    next
      assume r: "round_half_even q = \<lfloor>q\<rfloor> + 1"
      show ?thesis unfolding r using 3 by simp
    qed
  qed
qed

lemma round_half_even_of_int [simp]: "round_half_even (of_int k) = k"
  by (simp add: round_half_even_def)


lemma round_binary64_int_finite:
  assumes "\<bar>n\<bar> < 2 ^ 1024 - 2 ^ 970"
  shows "\<exists>r. round_binary64 (of_int n) = Finite r"
proof (cases "n = 0")
  case True
  then show ?thesis by (simp add: round_binary64_def)
next
  case False
  define a :: rat where "a = \<bar>of_int n\<bar>"
  define e where "e = ilog2 a"
  define ulp :: rat where "ulp = 2 powi (e - 52)"
  have a1: "1 \<le> a" using False by (simp add: a_def flip: of_int_abs)
  have "a = of_int \<bar>n\<bar>" by (simp add: a_def)
  also have "\<dots> < of_int (2 ^ 1024 - 2 ^ 970)"
    using assms by (simp only: of_int_less_iff)
  finally have a_hi: "a < 2 ^ 1024 - 2 ^ 970" by simp
  from ilog2_bounds_ge1 [OF a1]
  have e: "0 \<le> e" "2 powi e \<le> a" by (simp_all add: e_def)
  have "e < 1024"
  proof (rule ccontr)
    assume "\<not> e < 1024"
    then have "(2::rat) powi 1024 \<le> 2 powi e" by (intro power_int_increasing) simp_all
    with e(2) a_hi show False by simp
  qed
  then have "(2::rat) powi (e - 52) \<le> 2 powi 971" by (intro power_int_increasing) simp_all
  then have ulp_hi: "ulp \<le> 2 ^ 971" by (simp add: ulp_def)
  have ulp_pos: "0 < ulp" by (simp add: ulp_def)
  have "of_int (round_half_even (a / ulp)) * ulp \<le> (a / ulp + 1 / 2) * ulp"
    using round_half_even_le [of "a / ulp"] ulp_pos by (simp only: mult_le_cancel_right) simp
  also have "\<dots> = a + ulp / 2" using ulp_pos by (simp add: field_simps)
  also have "\<dots> < 2 ^ 1024" using a_hi ulp_hi by simp
  finally have r: "\<not> 2 ^ 1024 \<le> of_int (round_half_even (a / ulp)) * ulp" by simp
  have m: "max e (- 1022) = e" using e(1) by simp
  show ?thesis
    using False r
    by (simp add: round_binary64_def Let_def m flip: a_def e_def ulp_def)
qed

lemma float_of_int_finite:
  assumes "\<bar>n\<bar> < 2 ^ 1024 - 2 ^ 970"
  shows "\<exists>r. float_of_int n = Inr (Finite r)"
  using round_binary64_int_finite [OF assms] by (auto simp: float_of_int_def)

lemma round_binary64_exact:
  assumes x: "x = of_int k / 2 ^ j" and k: "\<bar>k\<bar> < 2 ^ 53" and x1: "1 \<le> \<bar>x\<bar>"
  shows "round_binary64 x = Finite x"
proof -
  define a :: rat where "a = \<bar>x\<bar>"
  define e where "e = ilog2 a"
  define ulp :: rat where "ulp = 2 powi (e - 52)"
  have a: "a = of_int \<bar>k\<bar> / 2 ^ j" by (simp add: a_def x)
  from ilog2_bounds_ge1 [of a] x1
  have e: "0 \<le> e" "2 powi e \<le> a" "a < 2 powi (e + 1)" by (simp_all add: e_def a_def)
  define E where "E = nat e"
  have eE: "e = int E" using e(1) by (simp add: E_def)
  have lo: "(2::rat) ^ E \<le> a" using e(2) by (simp add: eE)
  have "(2::rat) ^ (E + j) = 2 ^ E * 2 ^ j" by (simp add: power_add)
  also have "\<dots> \<le> a * 2 ^ j" using lo by simp
  also have "\<dots> = of_int \<bar>k\<bar>" by (simp add: a)
  also have "\<dots> < of_int (2 ^ 53)" using k by (simp only: of_int_less_iff)
  finally have lt: "(2::rat) ^ (E + j) < 2 ^ 53" by simp
  have Ej: "E + j < 53" by (rule power_less_imp_less_exp [OF _ lt]) simp
  define d where "d = 52 - E - j"
  have split: "52 - E = j + d" using Ej by (simp add: d_def)
  have "e - 52 = - int (j + d)" using Ej by (simp add: eE d_def)
  then have "ulp = 2 powi (- int (j + d))" by (simp only: ulp_def)
  also have "\<dots> = inverse (2 powi int (j + d))" by (rule power_int_minus)
  also have "\<dots> = 1 / 2 ^ (j + d)" by (simp only: power_int_of_nat inverse_eq_divide)
  finally have ulp: "ulp = 1 / 2 ^ (j + d)" .
  have q: "a / ulp = of_int (\<bar>k\<bar> * 2 ^ d)"
    by (simp add: a ulp power_add)
  have r: "of_int (round_half_even (a / ulp)) * ulp = a"
    by (simp only: q round_half_even_of_int) (simp add: a ulp power_add)
  have "a < 2 ^ (E + 1)" using e(3) by (simp add: eE power_int_add)
  also have "(2::rat) ^ (E + 1) \<le> 2 ^ 1024" using Ej by (intro power_increasing) simp_all
  finally have nov: "\<not> 2 ^ 1024 \<le> a" by simp
  have x0: "x \<noteq> 0" using x1 by auto
  have m: "max e (- 1022) = e" using e(1) by simp
  have "round_binary64 x = Finite (sgn x * a)"
    using x0 nov
    by (simp add: round_binary64_def Let_def m r flip: a_def e_def ulp_def)
  then show ?thesis by (simp add: a_def sgn_mult_abs)
qed

lemma float_of_int_exact:
  assumes "\<bar>n\<bar> < 2 ^ 53"
  shows "float_of_int n = Inr (Finite (of_int n))"
proof (cases "n = 0")
  case True
  then show ?thesis by (simp add: float_of_int_def round_binary64_def)
next
  case False
  then have "1 \<le> \<bar>rat_of_int n\<bar>" by (simp flip: of_int_abs)
  with round_binary64_exact [of "of_int n" n 0] assms
  show ?thesis by (simp add: float_of_int_def)
qed

lemma ilog2_bounds_lt1:
  assumes "0 < x" "x < 1"
  shows "2 powi ilog2 x \<le> x \<and> x < 2 powi (ilog2 x + 1)"
proof -
  define y :: rat where "y = 1 / x"
  define n where "n = nat \<lceil>y\<rceil>"
  define k where "k = ceillog2 n"
  have y1: "1 < y" using assms by (simp add: y_def)
  then have "2 \<le> \<lceil>y\<rceil>" by (simp add: le_ceiling_iff)
  then have n: "2 \<le> n" "int n = \<lceil>y\<rceil>" unfolding n_def by linarith+
  have up: "n \<le> 2 ^ k" by (simp add: k_def le_two_power_ceillog2)
  have lo: "2 ^ k < 2 * n" using two_power_ceillog2_gt [of n] n(1) by (simp add: k_def)
  have k: "0 < k"
  proof (rule ccontr)
    assume "\<not> 0 < k"
    with up n(1) show False by simp
  qed
  have e: "ilog2 x = - int k" using assms by (simp add: ilog2_def k_def n_def y_def)
  have "y \<le> of_int \<lceil>y\<rceil>" by (rule le_of_int_ceiling)
  also have "(of_int \<lceil>y\<rceil> :: rat) = of_nat n" using n(2) by (metis of_int_of_nat_eq)
  also have "(of_nat n :: rat) \<le> of_nat (2 ^ k)" using up by (simp only: of_nat_le_iff)
  finally have y_le: "y \<le> 2 ^ k" by simp
  have "2 ^ (k - 1) < n" using lo k by (cases k) simp_all
  then have "int (2 ^ (k - 1)) \<le> \<lceil>y\<rceil> - 1" using n(2) by linarith
  then have "(of_int (int (2 ^ (k - 1))) :: rat) \<le> of_int (\<lceil>y\<rceil> - 1)"
    by (simp only: of_int_le_iff)
  moreover have "of_int (\<lceil>y\<rceil> - 1) < y" using ceiling_correct [of y] by simp
  ultimately have y_gt: "2 ^ (k - 1) < y" by simp
  have p1: "(2::rat) powi ilog2 x = 1 / 2 ^ k"
    by (simp add: e power_int_minus inverse_eq_divide)
  have "ilog2 x + 1 = - int (k - 1)" using k by (simp add: e)
  then have p2: "(2::rat) powi (ilog2 x + 1) = 1 / 2 ^ (k - 1)"
    by (simp add: power_int_minus inverse_eq_divide)
  have "1 / 2 ^ k \<le> x"
    using y_le assms(1) by (simp add: y_def field_simps)
  moreover have "x < 1 / 2 ^ (k - 1)"
    using y_gt assms(1) by (simp add: y_def field_simps)
  ultimately show ?thesis by (simp only: p1 p2)
qed

lemma ilog2_bounds:
  assumes "0 < x"
  shows "2 powi ilog2 x \<le> x \<and> x < 2 powi (ilog2 x + 1)"
proof (cases "1 \<le> x")
  case True
  from ilog2_bounds_ge1 [OF this] show ?thesis by simp
next
  case False
  with assms ilog2_bounds_lt1 [of x] show ?thesis by simp
qed

lemma floor_le_round_half_even: "\<lfloor>q\<rfloor> \<le> round_half_even q"
  by (simp add: round_half_even_def Let_def)

lemma float_of_int_overflow:
  assumes "2 ^ 1024 \<le> \<bar>n\<bar>"
  shows "float_of_int n = Inl OverflowError"
proof -
  define a :: rat where "a = \<bar>of_int n\<bar>"
  define e where "e = ilog2 a"
  define ulp :: rat where "ulp = 2 powi (e - 52)"
  have "(of_int (2 ^ 1024) :: rat) \<le> of_int \<bar>n\<bar>"
    using assms by (simp only: of_int_le_iff)
  then have a_lo: "2 ^ 1024 \<le> a" by (simp add: a_def)
  then have a1: "1 \<le> a" by simp
  from ilog2_bounds_ge1 [OF a1]
  have e: "0 \<le> e" "2 powi e \<le> a" "a < 2 powi (e + 1)" by (simp_all add: e_def)
  have e_lo: "1024 \<le> e"
  proof (rule ccontr)
    assume "\<not> 1024 \<le> e"
    then have "(2::rat) powi (e + 1) \<le> 2 powi 1024" by (intro power_int_increasing) simp_all
    with e(3) a_lo show False by simp
  qed
  have ulp_pos: "0 < ulp" by (simp add: ulp_def)
  have "(2::rat) powi (52 + (e - 52)) = 2 powi 52 * 2 powi (e - 52)"
    by (rule power_int_add) simp
  then have pe: "(2::rat) powi e = 2 ^ 52 * ulp" by (simp add: ulp_def)
  have "2 ^ 52 \<le> a / ulp"
    using e(2) ulp_pos by (simp add: pe pos_le_divide_eq)
  then have "(2 ^ 52 :: int) \<le> \<lfloor>a / ulp\<rfloor>" by (simp add: le_floor_iff)
  with floor_le_round_half_even [of "a / ulp"]
  have "(2 ^ 52 :: int) \<le> round_half_even (a / ulp)" by linarith
  then have R: "(2::rat) ^ 52 \<le> of_int (round_half_even (a / ulp))"
    by (metis of_int_le_iff of_int_numeral of_int_power)
  have A: "2 ^ 52 * ulp \<le> of_int (round_half_even (a / ulp)) * ulp"
    using R by (rule mult_right_mono) (simp add: ulp_pos less_imp_le)
  have B: "(2::rat) powi 1024 \<le> 2 powi e"
    using e_lo by (intro power_int_increasing) simp_all
  have "(2::rat) ^ 1024 = 2 powi 1024" by simp
  also note B
  also note pe
  also note A
  finally have r: "2 ^ 1024 \<le> of_int (round_half_even (a / ulp)) * ulp" .
  have m: "max e (- 1022) = e" using e(1) by simp
  have n0: "n \<noteq> 0" using assms by auto
  show ?thesis
    using n0 r
    by (simp add: float_of_int_def round_binary64_def Let_def m flip: a_def e_def ulp_def)
qed

lemma float_of_int_overflow_edge:
  assumes lo: "2 ^ 1024 - 2 ^ 970 \<le> \<bar>n\<bar>" and hi: "\<bar>n\<bar> < 2 ^ 1024"
  shows "float_of_int n = Inl OverflowError"
proof -
  define a :: rat where "a = \<bar>of_int n\<bar>"
  have an: "a = of_int \<bar>n\<bar>" by (simp add: a_def)
  have "(of_int (2 ^ 1024 - 2 ^ 970) :: rat) \<le> of_int \<bar>n\<bar>"
    using lo by (simp only: of_int_le_iff)
  then have a_lo: "2 ^ 1024 - 2 ^ 970 \<le> a" by (simp add: an)
  have "(of_int \<bar>n\<bar> :: rat) < of_int (2 ^ 1024)"
    using hi by (simp only: of_int_less_iff)
  then have a_hi: "a < 2 ^ 1024" by (simp add: an)
  have a1: "1 \<le> a" using a_lo by simp
  have "ilog2 a = 1023"
    using a1 a_lo a_hi by (intro ilog2_eqI_ge1) simp_all
  then have ulp: "2 powi (max (ilog2 a) (- 1022) - 52) = (2 ^ 971 :: rat)" by simp
  define q :: rat where "q = a / 2 ^ 971"
  have q_lo: "2 ^ 53 - 1 / 2 \<le> q" using a_lo by (simp add: q_def field_simps)
  have q_hi: "q < 2 ^ 53" using a_hi by (simp add: q_def field_simps)
  have fl: "\<lfloor>q\<rfloor> = 2 ^ 53 - 1"
    using q_lo q_hi by (intro floor_unique) simp_all
  have "round_half_even q = 2 ^ 53"
    using q_lo by (simp add: round_half_even_def fl Let_def)
  then have r: "of_int (round_half_even q) * 2 ^ 971 = (2 ^ 1024 :: rat)" by simp
  have n0: "n \<noteq> 0" using lo by auto
  have "round_binary64 (of_int n) = (if (0::rat) < of_int n then PosInf else NegInf)"
    using n0
    by (simp only: round_binary64_def Let_def a_def [symmetric] ulp q_def [symmetric] r) simp
  then show ?thesis
    by (simp add: float_of_int_def)
qed

lemma float_of_int_error_iff:
  "float_of_int n = Inl OverflowError \<longleftrightarrow> 2 ^ 1024 - 2 ^ 970 \<le> \<bar>n\<bar>"
proof
  assume e: "float_of_int n = Inl OverflowError"
  show "2 ^ 1024 - 2 ^ 970 \<le> \<bar>n\<bar>"
  proof (rule ccontr)
    assume "\<not> 2 ^ 1024 - 2 ^ 970 \<le> \<bar>n\<bar>"
    then have "\<bar>n\<bar> < 2 ^ 1024 - 2 ^ 970" by simp
    from float_of_int_finite [OF this] e show False by auto
  qed
next
  assume b: "2 ^ 1024 - 2 ^ 970 \<le> \<bar>n\<bar>"
  show "float_of_int n = Inl OverflowError"
  proof (cases "\<bar>n\<bar> < 2 ^ 1024")
    case True
    with b show ?thesis by (rule float_of_int_overflow_edge)
  next
    case False
    then have "2 ^ 1024 \<le> \<bar>n\<bar>" by simp
    then show ?thesis by (rule float_of_int_overflow)
  qed
qed

section \<open>Properties of the simulation endpoints\<close>

subsection \<open>Log lines that print the number\<close>

lemma format_int_ok: "\<bar>n\<bar> < 10 ^ int_max_str_digits \<Longrightarrow> format_int n = Inr ()"
  by (simp add: format_int_def)

lemma two_power_1024_below_str_limit: "(2 ^ 1024 :: int) < 10 ^ int_max_str_digits"
proof -
  have "(2::int) ^ 1024 < 10 ^ 1024"
    by (rule power_strict_mono) simp_all
  also have "(10::int) ^ 1024 \<le> 10 ^ int_max_str_digits"
    by (rule power_increasing) (simp_all add: int_max_str_digits_def)
  finally show ?thesis .
qed

lemma float_bound_below_str_limit: "(2 ^ 1024 - 2 ^ 970 :: int) \<le> 10 ^ int_max_str_digits"
proof -
  have "(2 ^ 1024 - 2 ^ 970 :: int) \<le> 2 ^ 1024" by simp
  with two_power_1024_below_str_limit show ?thesis by linarith
qed

lemma format_int_float_range: "\<bar>n\<bar> < 2 ^ 1024 - 2 ^ 970 \<Longrightarrow> format_int n = Inr ()"
  using float_bound_below_str_limit by (intro format_int_ok) linarith

lemma format_int_small: "\<bar>n\<bar> < 2 ^ 53 \<Longrightarrow> format_int n = Inr ()"
proof -
  assume "\<bar>n\<bar> < 2 ^ 53"
  moreover have "(2 ^ 53 :: int) \<le> 2 ^ 1024 - 2 ^ 970" by simp
  ultimately have "\<bar>n\<bar> < 2 ^ 1024 - 2 ^ 970" by linarith
  then show ?thesis by (rule format_int_float_range)
qed

subsection \<open>Validation on the route and in the handler\<close>

lemma run_simulation_nonpositive:
  assumes "server_capacity request \<le> 0"
  shows "run_simulation request p now =
           (case format_int (server_capacity request) of
              Inl e \<Rightarrow> (Inl (Py e), p)
            | Inr _ \<Rightarrow> (Inl (Http (HTTPException 400 CapacityNotPositive)), p))"
  using assms by (simp add: run_simulation_def run_simulation_try_def split: sum.splits)

lemma validate_nonpositive:
  assumes "body_server_capacity body = Given n" "n \<le> 0"
  shows "\<exists>errs. SimulationRequest_validate body = Inl errs
                \<and> NotGreaterThan ''server_capacity'' 0 \<in> set errs"
  using assms by (simp add: SimulationRequest_validate_def Let_def split: sum.splits)

text \<open>
  Claim C1. For every request with \<^verbatim>\<open>server_capacity <= 0\<close>, submit-simulation fails
  with a 400-class validation error and no provider operation is invoked. On the route the
  body is validated first: a body with \<^verbatim>\<open>server_capacity <= 0\<close> is answered with 422, the
  handler does not run and the log of the new client stays empty. The handler has its own
  check for a \<^verbatim>\<open>SimulationRequest\<close> handed to it directly: with
  \<^verbatim>\<open>server_capacity <= 0\<close> it never returns a response and leaves the provider as it
  was, so none of \<^verbatim>\<open>get_latest_model_version\<close>, \<^verbatim>\<open>create_inputs_from_experiment\<close>,
  \<^verbatim>\<open>create_simulation\<close> and \<^verbatim>\<open>get_outputs_and_run_if_absent\<close> was invoked, and what
  it raises is the \<^verbatim>\<open>HTTPException\<close> with status 400 whenever the number has at most
  4300 digits, that is, whenever the first log line can print it.
\<close>

theorem nonpositive_capacity_rejected:
  "(body_server_capacity body = Given n \<and> n \<le> 0 \<longrightarrow>
      (\<exists>errs. post_simulations_run body now
                 = (Inl (Http (HTTPException 422 (RequestInvalid errs))), get_cloud_client)
              \<and> NotGreaterThan ''server_capacity'' 0 \<in> set errs)
      \<and> calls get_cloud_client = [])
   \<and> (server_capacity request \<le> 0 \<longrightarrow>
        (\<exists>e. fst (run_simulation request p now) = Inl e)
        \<and> snd (run_simulation request p now) = p)
   \<and> (server_capacity request \<le> 0 \<and> - (10 ^ int_max_str_digits) < server_capacity request \<longrightarrow>
        run_simulation request p now
          = (Inl (Http (HTTPException 400 CapacityNotPositive)), p))"
proof (intro conjI impI)
  assume "body_server_capacity body = Given n \<and> n \<le> 0"
  then obtain errs where "SimulationRequest_validate body = Inl errs"
    and "NotGreaterThan ''server_capacity'' 0 \<in> set errs"
    using validate_nonpositive by blast
  then show "\<exists>errs. post_simulations_run body now
                 = (Inl (Http (HTTPException 422 (RequestInvalid errs))), get_cloud_client)
              \<and> NotGreaterThan ''server_capacity'' 0 \<in> set errs"
    by (simp add: post_simulations_run_def)
next
  show "calls get_cloud_client = []" by (simp add: get_cloud_client_def)
next
  assume "server_capacity request \<le> 0"
  from run_simulation_nonpositive [OF this]
  show "\<exists>e. fst (run_simulation request p now) = Inl e"
    by (simp split: sum.splits)
next
  assume "server_capacity request \<le> 0"
  from run_simulation_nonpositive [OF this]
  show "snd (run_simulation request p now) = p"
    by (simp split: sum.splits)
next
  assume a: "server_capacity request \<le> 0 \<and> - (10 ^ int_max_str_digits) < server_capacity request"
  then have "\<bar>server_capacity request\<bar> < 10 ^ int_max_str_digits" by linarith
  then have "format_int (server_capacity request) = Inr ()" by (rule format_int_ok)
  with run_simulation_nonpositive [of request p now] a
  show "run_simulation request p now
          = (Inl (Http (HTTPException 400 CapacityNotPositive)), p)"
    by simp
qed

theorem nonpositive_capacity_rejected_witness:
  "body_server_capacity \<lparr>body_server_capacity = Given (- 3), body_model_name = Missing,
                          body_experiment_name = Missing\<rparr> = Given (- 3)
   \<and> (- 3 :: int) \<le> 0
   \<and> post_simulations_run \<lparr>body_server_capacity = Given (- 3), body_model_name = Missing,
                             body_experiment_name = Missing\<rparr> 7
       = (Inl (Http (HTTPException 422 (RequestInvalid [NotGreaterThan ''server_capacity'' 0]))),
          get_cloud_client)
   \<and> calls get_cloud_client = []
   \<and> server_capacity \<lparr>server_capacity = - 3, model_name = ''Service System Demo'',
                       experiment_name = ''Simulation''\<rparr> \<le> 0
   \<and> - (10 ^ int_max_str_digits)
       < server_capacity \<lparr>server_capacity = - 3, model_name = ''Service System Demo'',
                           experiment_name = ''Simulation''\<rparr>
   \<and> run_simulation \<lparr>server_capacity = - 3, model_name = ''Service System Demo'',
                       experiment_name = ''Simulation''\<rparr> get_cloud_client 7
       = (Inl (Http (HTTPException 400 CapacityNotPositive)), get_cloud_client)"
proof -
  have v: "SimulationRequest_validate \<lparr>body_server_capacity = Given (- 3),
             body_model_name = Missing, body_experiment_name = Missing\<rparr>
           = Inl [NotGreaterThan ''server_capacity'' 0]"
    by (simp add: SimulationRequest_validate_def)
  have "(3 :: int) < 2 ^ 1024" by simp
  with two_power_1024_below_str_limit
  have lim: "- (10 ^ int_max_str_digits) < (- 3 :: int)" by linarith
  from nonpositive_capacity_rejected
         [where body = "\<lparr>body_server_capacity = Given (- 3), body_model_name = Missing,
                          body_experiment_name = Missing\<rparr>"
            and n = "- 3" and now = 7
            and request = "\<lparr>server_capacity = - 3, model_name = ''Service System Demo'',
                             experiment_name = ''Simulation''\<rparr>"
            and p = get_cloud_client] lim
  show ?thesis
    by (simp add: post_simulations_run_def v)
qed

subsection \<open>Reading a metric\<close>

text \<open>
  Claim C7. When a requested metric key (in particular
  \<^verbatim>\<open>"Mean queue size|Mean queue size"\<close> or \<^verbatim>\<open>"Utilization|Server utilization"\<close>) is absent
  from the output bag of the mock provider, \<^verbatim>\<open>value\<close> returns the default \<open>0.0\<close>; it
  is a total function and has no error result.
\<close>

theorem value_absent_key_default:
  "key \<notin> fst ` set (data outputs) \<Longrightarrow> value outputs key = PFloat (Finite 0)"
proof -
  assume "key \<notin> fst ` set (data outputs)"
  then have "map_of (data outputs) key = None"
    by (simp add: map_of_eq_None_iff)
  then show ?thesis
    by (simp add: value_def)
qed

theorem value_absent_key_default_witness:
  "''Mean queue size|Mean queue size'' \<notin> fst ` set (data \<lparr>out_server_capacity = PInt 5, data = []\<rparr>)
   \<and> value \<lparr>out_server_capacity = PInt 5, data = []\<rparr> ''Mean queue size|Mean queue size''
       = PFloat (Finite 0)"
  using value_absent_key_default
          [of "''Mean queue size|Mean queue size''" "\<lparr>out_server_capacity = PInt 5, data = []\<rparr>"]
  by simp

subsection \<open>Listing and looking up models\<close>

lemma list_loop_eq:
  "list_loop iv models result = result @ map (list_info iv) models"
  by (induction models arbitrary: result) simp_all

lemma list_info_id [simp]: "mi_id (list_info iv m) = mm_id m"
  by (simp add: list_info_def basic_info_def Let_def split: option.splits)

lemma list_info_name [simp]: "mi_name (list_info iv m) = mm_name m"
  by (simp add: list_info_def basic_info_def Let_def split: option.splits)

lemma lookup_loop_find:
  "lookup_loop model_id models =
     (case find (\<lambda>m. mm_id m = model_id) models of
        None \<Rightarrow> Inl (HTTPException 404 (ModelNotFound model_id))
      | Some m \<Rightarrow> Inr (detail_info m))"
  by (induction models) simp_all

lemma lookup_loop_absent:
  "model_id \<notin> mm_id ` set models \<Longrightarrow>
     lookup_loop model_id models = Inl (HTTPException 404 (ModelNotFound model_id))"
  by (induction models) auto

lemma lookup_loop_present:
  "distinct (map mm_id models) \<Longrightarrow> m \<in> set models \<Longrightarrow>
     lookup_loop (mm_id m) models = Inr (detail_info m)"
  by (induction models) (auto simp: rev_image_eqI)

text \<open>
  Claim C6. Listing models is order-preserving and idempotent: the handler returns one
  \<^verbatim>\<open>ModelInfo\<close> per model of the provider, in the provider's order (ids and names are
  the provider's, position by position, with no sorting), and a second call on the provider
  as the first call left it returns the same sequence.
\<close>

theorem models_listing_order_idempotent:
  "get_models_handler p include_versions =
     (Inr (map (list_info include_versions) (fst (get_models p))), snd (get_models p))
   \<and> map mi_id (map (list_info include_versions) (fst (get_models p)))
       = map mm_id (fst (get_models p))
   \<and> map mi_name (map (list_info include_versions) (fst (get_models p)))
       = map mm_name (fst (get_models p))
   \<and> fst (get_models_handler (snd (get_models_handler p include_versions)) include_versions)
       = fst (get_models_handler p include_versions)"
  by (simp add: get_models_handler_def list_loop_eq get_models_def split_def)


lemma mock_ids_distinct: "distinct (map mm_id (fst (get_models p)))"
  by (simp add: get_models_def MockModel_init_def)

lemma get_models_fst: "fst (get_models p) = fst (get_models p')"
  by (simp add: get_models_def)

text \<open>
  Claim C4. Get-model-by-id is consistent with list-models: for every \<^verbatim>\<open>ModelInfo\<close> of the
  listing, get-model-by-id with its id returns a \<^verbatim>\<open>ModelInfo\<close> with the same id and name;
  for every id that is not in the listing it fails with status 404; and the lookup is a
  linear scan of the provider's full listing, returning the first model with the id.
\<close>

theorem get_model_by_id_consistent:
  assumes "fst (get_models_handler p include_versions) = Inr listing"
  shows "(info \<in> set listing \<longrightarrow>
            (\<exists>found. fst (get_model_by_id (mi_id info) p') = Inr found
                     \<and> mi_id found = mi_id info \<and> mi_name found = mi_name info))
         \<and> (model_id \<notin> mi_id ` set listing \<longrightarrow>
              fst (get_model_by_id model_id p')
                = Inl (HTTPException 404 (ModelNotFound model_id)))
         \<and> fst (get_model_by_id model_id p')
             = (case find (\<lambda>m. mm_id m = model_id) (fst (get_models p')) of
                  None \<Rightarrow> Inl (HTTPException 404 (ModelNotFound model_id))
                | Some m \<Rightarrow> Inr (detail_info m))"
proof -
  let ?ms = "fst (get_models p')"
  have listing: "listing = map (list_info include_versions) ?ms"
    using assms get_models_fst [of p p']
    by (simp add: get_models_handler_def list_loop_eq split_def Let_def)
  have by_id: "fst (get_model_by_id i p') = lookup_loop i ?ms" for i
    by (simp add: get_model_by_id_def split_def Let_def)
  have present: "\<exists>found. fst (get_model_by_id (mi_id info) p') = Inr found
                     \<and> mi_id found = mi_id info \<and> mi_name found = mi_name info"
    if "info \<in> set listing"
  proof -
    from that listing obtain m where m: "m \<in> set ?ms" "info = list_info include_versions m"
      by auto
    have "lookup_loop (mm_id m) ?ms = Inr (detail_info m)"
      using mock_ids_distinct m(1) by (rule lookup_loop_present)
    then show ?thesis
      using m(2) by (simp add: by_id detail_info_def)
  qed
  have absent: "fst (get_model_by_id model_id p')
                  = Inl (HTTPException 404 (ModelNotFound model_id))"
    if "model_id \<notin> mi_id ` set listing"
  proof -
    have "mi_id ` set listing = mm_id ` set ?ms"
      by (simp add: listing image_image)
    with that show ?thesis
      by (simp add: by_id lookup_loop_absent)
  qed
  show ?thesis
    using present absent by (simp add: by_id lookup_loop_find)
qed

theorem get_model_by_id_consistent_witness:
  "fst (get_models_handler get_cloud_client False)
     = Inr (map (list_info False) (fst (get_models get_cloud_client)))
   \<and> list_info False (MockModel_init ''model_2'' ''Manufacturing Line Demo'')
       \<in> set (map (list_info False) (fst (get_models get_cloud_client)))
   \<and> (\<exists>found. fst (get_model_by_id ''model_2'' get_cloud_client) = Inr found
               \<and> mi_id found = ''model_2'' \<and> mi_name found = ''Manufacturing Line Demo'')
   \<and> ''model_9'' \<notin> mi_id ` set (map (list_info False) (fst (get_models get_cloud_client)))
   \<and> fst (get_model_by_id ''model_9'' get_cloud_client)
       = Inl (HTTPException 404 (ModelNotFound ''model_9''))"
proof -
  let ?L = "map (list_info False) (fst (get_models get_cloud_client))"
  let ?info = "list_info False (MockModel_init ''model_2'' ''Manufacturing Line Demo'')"
  have h: "fst (get_models_handler get_cloud_client False) = Inr ?L"
    by (simp add: get_models_handler_def list_loop_eq split_def Let_def)
  have a: "?info \<in> set ?L"
    by (simp add: get_models_def)
  have b: "''model_9'' \<notin> mi_id ` set ?L"
    by (simp add: get_models_def MockModel_init_def)
  have i: "mi_id ?info = ''model_2''" "mi_name ?info = ''Manufacturing Line Demo''"
    by (simp_all add: MockModel_init_def)
  from get_model_by_id_consistent [OF h, of ?info get_cloud_client "''model_9''"] a b i h
  show ?thesis by simp
qed

subsection \<open>The mock formulas\<close>

lemma float_less_imp_le: "float_less a b \<Longrightarrow> float_le a b"
  by (cases a; cases b) simp_all

lemma py_max_ge: "py_le (PInt 0) (py_max (PInt 0) b)"
  by (simp add: py_max_def py_le_def py_less_def float_less_imp_le)

lemma py_min_le: "py_le (py_min (PInt 100) d) (PInt 100)"
  by (simp add: py_min_def py_le_def py_less_def float_less_imp_le)

lemma MockOutputs_init_int:
  assumes "\<bar>n\<bar> < 2 ^ 1024 - 2 ^ 970"
  shows "\<exists>b. MockOutputs_init (PInt n) =
           Inr \<lparr>out_server_capacity = PInt n,
                data = [(''Mean queue size|Mean queue size'', py_max (PInt 0) (PFloat b)),
                        (''Utilization|Server utilization'',
                           py_min (PInt 100) (PInt (50 + n * 8)))]\<rparr>"
proof -
  from float_of_int_finite [OF assms] obtain r where r: "float_of_int n = Inr (Finite r)"
    by blast
  have ten: "float_of_int 10 = Inr (Finite 10)"
    using float_of_int_exact [of 10] by simp
  show ?thesis
    by (simp add: MockOutputs_init_def r ten) (rule exI, rule refl)
qed

lemma MockOutputs_init_error:
  assumes "MockOutputs_init (PInt n) = Inl e"
  shows "e = OverflowError \<and> 2 ^ 1024 - 2 ^ 970 \<le> \<bar>n\<bar>"
proof -
  have big: "2 ^ 1024 - 2 ^ 970 \<le> \<bar>n\<bar>"
  proof (rule ccontr)
    assume "\<not> 2 ^ 1024 - 2 ^ 970 \<le> \<bar>n\<bar>"
    then have "\<bar>n\<bar> < 2 ^ 1024 - 2 ^ 970" by simp
    from MockOutputs_init_int [OF this] assms show False by auto
  qed
  have "e = OverflowError"
    using assms
    by (auto simp: MockOutputs_init_def float_of_int_def
             split: sum.splits float64.splits)
  with big show ?thesis by simp
qed

text \<open>
  Claim C8. For every integer \<^verbatim>\<open>server_capacity\<close> fed to the mock provider, the
  \<^verbatim>\<open>mean_queue_size\<close> it produces is at least 0 and the \<^verbatim>\<open>server_utilization\<close> it
  produces is at most 100. The constructor produces an output bag for every integer below
  \<open>2 ^ 1024 - 2 ^ 970\<close> in absolute value; when it produces none, it has raised
  \<^verbatim>\<open>OverflowError\<close> on an integer that does not convert to float.
\<close>

theorem mock_metrics_bounded:
  "(case MockOutputs_init (PInt n) of
      Inl e \<Rightarrow> e = OverflowError \<and> 2 ^ 1024 - 2 ^ 970 \<le> \<bar>n\<bar>
    | Inr outputs \<Rightarrow>
        py_le (PInt 0) (value outputs ''Mean queue size|Mean queue size'')
        \<and> py_le (value outputs ''Utilization|Server utilization'') (PInt 100))"
proof (cases "MockOutputs_init (PInt n)")
  case (Inl e)
  with MockOutputs_init_error [OF Inl] show ?thesis by simp
next
  case (Inr outputs)
  have "\<bar>n\<bar> < 2 ^ 1024 - 2 ^ 970 \<or> 2 ^ 1024 - 2 ^ 970 \<le> \<bar>n\<bar>" by linarith
  then show ?thesis
  proof
    assume "\<bar>n\<bar> < 2 ^ 1024 - 2 ^ 970"
    from MockOutputs_init_int [OF this] Inr show ?thesis
      by (auto simp: value_def py_max_ge py_min_le)
  next
    assume big: "2 ^ 1024 - 2 ^ 970 \<le> \<bar>n\<bar>"
    from Inr show ?thesis
      by (auto simp: MockOutputs_init_def value_def py_max_ge py_min_le
               split: sum.splits)
  qed
qed

subsection \<open>Submitting a simulation\<close>

lemma format_04d_1: "format_04d 1 = ''0001''"
  by (simp add: format_04d_def digits10.simps numeral_3_eq_3)

lemma MockOutputs_init_5:
  "MockOutputs_init (PInt 5) =
     Inr \<lparr>out_server_capacity = PInt 5,
          data = [(''Mean queue size|Mean queue size'', PFloat (Finite (5 / 2))),
                  (''Utilization|Server utilization'', PInt 90)]\<rparr>"
proof -
  have five: "float_of_int 5 = Inr (Finite 5)"
    using float_of_int_exact [of 5] by simp
  have ten: "float_of_int 10 = Inr (Finite 10)"
    using float_of_int_exact [of 10] by simp
  have a: "round_binary64 (15 / 2) = Finite (15 / 2)"
    using round_binary64_exact [of "15 / 2" 15 1] by simp
  have b: "round_binary64 (5 / 2) = Finite (5 / 2)"
    using round_binary64_exact [of "5 / 2" 5 1] by simp
  show ?thesis
    by (simp add: MockOutputs_init_def five ten a b py_max_def py_min_def py_less_def)
qed

lemma float_of_int_90: "float_of_int 90 = Inr (Finite 90)"
  using float_of_int_exact [of 90] by simp

lemma format_int_5: "format_int 5 = Inr ()"
  by (rule format_int_small) simp

text \<open>
  Claim C2. Submitting \<^verbatim>\<open>{server_capacity: 5, model_name: "Service System Demo",
  experiment_name: "Baseline"}\<close> against the mock provider succeeds, whatever the state of
  the client, with \<^verbatim>\<open>mean_queue_size = max(0, 10 - 5*1.5) = 2.5\<close> and
  \<^verbatim>\<open>server_utilization = min(100, 50 + 5*8) = 90.0\<close>.
\<close>

theorem scenario_capacity_5:
  "map_sum id (\<lambda>r. (mean_queue_size r, server_utilization r))
     (fst (run_simulation \<lparr>server_capacity = 5, model_name = ''Service System Demo'',
                           experiment_name = ''Baseline''\<rparr> p now))
   = Inr (Finite (5 / 2), Finite 90)"
  by (simp add: run_simulation_def run_simulation_try_def get_latest_model_version_def
        create_inputs_from_experiment_def set_input_def create_simulation_def
        get_outputs_and_run_if_absent_def MockInputs_init_def MockOutputs_init_5
        value_def format_2f_def float_of_int_90 format_int_5 Let_def)

lemma run_simulation_5:
  "run_simulation \<lparr>server_capacity = 5, model_name = ''Service System Demo'',
                    experiment_name = ''Simulation''\<rparr> get_cloud_client 7
   = (Inr \<lparr>simulation_id = ''sim_0001'', resp_server_capacity = 5,
           mean_queue_size = Finite (5 / 2), server_utilization = Finite 90,
           raw_outputs = [(''Mean queue size|Mean queue size'', PFloat (Finite (5 / 2))),
                          (''Utilization|Server utilization'', PInt 90)],
           status = ''completed'', timestamp = Some 7\<rparr>,
      \<lparr>client = \<lparr>api_key = ''DEMO_KEY'', simulation_counter = 1\<rparr>,
       calls = [GetLatestModelVersion ''Service System Demo'',
                CreateInputsFromExperiment ''Simulation'',
                SetInput ''Server capacity'' (PInt 5),
                CreateSimulation,
                GetOutputsAndRunIfAbsent ''sim_0001'']\<rparr>)"
  by (simp add: run_simulation_def run_simulation_try_def get_latest_model_version_def
        create_inputs_from_experiment_def set_input_def create_simulation_def
        get_outputs_and_run_if_absent_def MockInputs_init_def MockOutputs_init_5
        value_def format_2f_def float_of_int_90 format_int_5 Let_def get_cloud_client_def
        MockCloudClient_init_def logged_def format_04d_1 get_raw_outputs_def)

text \<open>
  Claim C3. For every submission with \<^verbatim>\<open>server_capacity > 0\<close> that succeeds, the
  \<^verbatim>\<open>simulation_id\<close> of the response is a non-empty string, its \<^verbatim>\<open>server_capacity\<close> is
  the request's, unchanged, and its \<^verbatim>\<open>status\<close> is \<^verbatim>\<open>"completed"\<close>.
\<close>

theorem run_simulation_success_echo:
  "0 < server_capacity request \<Longrightarrow> run_simulation request p now = (Inr response, p') \<Longrightarrow>
     simulation_id response \<noteq> [] \<and> resp_server_capacity response = server_capacity request
     \<and> status response = ''completed''"
  by (auto simp: run_simulation_def run_simulation_try_def Let_def split_def
           create_simulation_def get_outputs_and_run_if_absent_def set_input_def
           split: if_splits sum.splits raised.splits)

theorem run_simulation_success_echo_witness:
  "0 < server_capacity \<lparr>server_capacity = 5, model_name = ''Service System Demo'',
                         experiment_name = ''Simulation''\<rparr>
   \<and> fst (run_simulation \<lparr>server_capacity = 5, model_name = ''Service System Demo'',
                            experiment_name = ''Simulation''\<rparr> get_cloud_client 7)
       = Inr \<lparr>simulation_id = ''sim_0001'', resp_server_capacity = 5,
              mean_queue_size = Finite (5 / 2), server_utilization = Finite 90,
              raw_outputs = [(''Mean queue size|Mean queue size'', PFloat (Finite (5 / 2))),
                             (''Utilization|Server utilization'', PInt 90)],
              status = ''completed'', timestamp = Some 7\<rparr>
   \<and> ''sim_0001'' \<noteq> [] \<and> (5::int) = 5"
  using run_simulation_success_echo [OF _ run_simulation_5]
  by (simp add: run_simulation_5)

text \<open>
  Claim C9. The request model declares \<^verbatim>\<open>server_capacity\<close> with \<^verbatim>\<open>gt=0\<close>, so every
  request that validation lets through has \<^verbatim>\<open>server_capacity > 0\<close>; on such a request the
  handler's own check \<^verbatim>\<open>server_capacity <= 0\<close> is false, and the handler never answers
  with status 400.
\<close>

theorem parsed_request_positive:
  "SimulationRequest_validate body = Inr request \<Longrightarrow>
     0 < server_capacity request
     \<and> fst (run_simulation request p now) \<noteq> Inl (Http (HTTPException 400 CapacityNotPositive))
     \<and> (case fst (run_simulation request p now) of
           Inl (Http e) \<Rightarrow> status_code e \<noteq> 400 | Inl (Py _) \<Rightarrow> True | Inr _ \<Rightarrow> True)"
proof -
  assume v: "SimulationRequest_validate body = Inr request"
  then obtain n where n: "validate_server_capacity (body_server_capacity body) = Inr n"
    and r: "server_capacity request = n"
    by (auto simp: SimulationRequest_validate_def Let_def split: sum.splits)
  from n have "0 < n"
    by (cases "body_server_capacity body") (auto split: if_splits)
  with r have pos: "0 < server_capacity request" by simp
  then show ?thesis
    by (auto simp: run_simulation_def run_simulation_try_def Let_def split_def
             split: sum.splits raised.splits)
qed

lemma validate_5:
  "SimulationRequest_validate \<lparr>body_server_capacity = Given 5, body_model_name = Missing,
                                body_experiment_name = Missing\<rparr>
   = Inr \<lparr>server_capacity = 5, model_name = ''Service System Demo'',
          experiment_name = ''Simulation''\<rparr>"
  by (simp add: SimulationRequest_validate_def)

theorem parsed_request_positive_witness:
  "SimulationRequest_validate \<lparr>body_server_capacity = Given 5, body_model_name = Missing,
                                body_experiment_name = Missing\<rparr>
     = Inr \<lparr>server_capacity = 5, model_name = ''Service System Demo'',
            experiment_name = ''Simulation''\<rparr>
   \<and> 0 < server_capacity \<lparr>server_capacity = 5, model_name = ''Service System Demo'',
                           experiment_name = ''Simulation''\<rparr>
   \<and> fst (run_simulation \<lparr>server_capacity = 5, model_name = ''Service System Demo'',
                            experiment_name = ''Simulation''\<rparr> get_cloud_client 7)
       \<noteq> Inl (Http (HTTPException 400 CapacityNotPositive))"
  using parsed_request_positive [OF validate_5, of get_cloud_client 7]
  by (simp add: validate_5)

lemma as_float_max: "\<exists>q. as_float (py_max (PInt 0) (PFloat b)) = Inr q"
  by (simp add: py_max_def float_of_int_def round_binary64_def)

lemma as_float_min:
  assumes "0 < n"
  shows "\<exists>u. as_float (py_min (PInt 100) (PInt (50 + n * 8))) = Inr u"
proof (cases "50 + n * 8 < 100")
  case True
  with assms have "\<bar>50 + n * 8\<bar> < 2 ^ 53" by simp
  from float_of_int_exact [OF this] True show ?thesis
    by (simp add: py_min_def py_less_def)
next
  case False
  with float_of_int_exact [of 100] show ?thesis
    by (simp add: py_min_def py_less_def)
qed

lemma run_simulation_in_float_range:
  assumes "0 < server_capacity request" and "server_capacity request < 2 ^ 1024 - 2 ^ 970"
  shows "\<exists>response. fst (run_simulation request p now) = Inr response
                    \<and> status response = ''completed''"
proof -
  let ?n = "server_capacity request"
  have abs: "\<bar>?n\<bar> < 2 ^ 1024 - 2 ^ 970" using assms by simp
  then have fmt: "format_int ?n = Inr ()" by (rule format_int_float_range)
  from MockOutputs_init_int [OF abs] obtain b where
    out: "MockOutputs_init (PInt ?n) =
            Inr \<lparr>out_server_capacity = PInt ?n,
                 data = [(''Mean queue size|Mean queue size'', py_max (PInt 0) (PFloat b)),
                         (''Utilization|Server utilization'',
                            py_min (PInt 100) (PInt (50 + ?n * 8)))]\<rparr>"
    by blast
  from as_float_max obtain q where q: "as_float (py_max (PInt 0) (PFloat b)) = Inr q"
    by blast
  from as_float_min [OF assms(1)] obtain u where
    u: "as_float (py_min (PInt 100) (PInt (50 + ?n * 8))) = Inr u"
    by blast
  show ?thesis
    using assms(1)
    by (simp add: run_simulation_def run_simulation_try_def get_latest_model_version_def
          create_inputs_from_experiment_def set_input_def create_simulation_def
          get_outputs_and_run_if_absent_def MockInputs_init_def out fmt
          value_def format_2f_def q u Let_def)
qed

lemma run_simulation_overflow:
  assumes "2 ^ 1024 - 2 ^ 970 \<le> server_capacity request"
    and "server_capacity request < 10 ^ int_max_str_digits"
  shows "fst (run_simulation request p now)
           = Inl (Http (HTTPException 500 (SimulationFailed OverflowError)))"
proof -
  let ?n = "server_capacity request"
  have "(0::int) < 2 ^ 1024 - 2 ^ 970" by simp
  with assms(1) have pos: "0 < ?n" by linarith
  with assms(2) have "\<bar>?n\<bar> < 10 ^ int_max_str_digits" by simp
  then have fmt: "format_int ?n = Inr ()" by (rule format_int_ok)
  have "2 ^ 1024 - 2 ^ 970 \<le> \<bar>?n\<bar>" using assms(1) pos by simp
  then have "float_of_int ?n = Inl OverflowError"
    by (simp only: float_of_int_error_iff)
  then have "MockOutputs_init (PInt ?n) = Inl OverflowError"
    by (simp add: MockOutputs_init_def)
  then show ?thesis
    using pos
    by (simp add: run_simulation_def run_simulation_try_def get_latest_model_version_def
          create_inputs_from_experiment_def set_input_def create_simulation_def
          get_outputs_and_run_if_absent_def MockInputs_init_def fmt Let_def)
qed

lemma run_simulation_unformattable:
  assumes "10 ^ int_max_str_digits \<le> \<bar>server_capacity request\<bar>"
  shows "run_simulation request p now = (Inl (Py ValueError), p)"
  using assms by (simp add: run_simulation_def format_int_def)

text \<open>
  Claim C10, as amended. Against the mock provider, \<^verbatim>\<open>get_latest_model_version\<close> returns
  a version for every model name, with no look at the catalogue, and for every model name
  and experiment name a request with \<open>0 < server_capacity\<close> is answered with status
  \<^verbatim>\<open>"completed"\<close> exactly when \<open>server_capacity < 2 ^ 1024 - 2 ^ 970\<close>, the integers that
  convert to float: below that bound the 500 branch is not taken. From that bound up to
  the integers of 4300 digits, \<^verbatim>\<open>server_capacity * 1.5\<close> in the mock raises
  \<^verbatim>\<open>OverflowError\<close> and the handler answers with status 500.
\<close>

theorem run_simulation_completes:
  assumes "0 < server_capacity request"
  shows "fst (get_latest_model_version (model_name request) p)
           = MockModelVersion_init ''latest'' (model_name request)
         \<and> ((\<exists>response. fst (run_simulation request p now) = Inr response
                         \<and> status response = ''completed'')
              \<longleftrightarrow> server_capacity request < 2 ^ 1024 - 2 ^ 970)
         \<and> (2 ^ 1024 - 2 ^ 970 \<le> server_capacity request
              \<and> server_capacity request < 10 ^ int_max_str_digits \<longrightarrow>
              fst (run_simulation request p now)
                = Inl (Http (HTTPException 500 (SimulationFailed OverflowError))))"
proof (intro conjI impI)
  show "fst (get_latest_model_version (model_name request) p)
           = MockModelVersion_init ''latest'' (model_name request)"
    by (simp add: get_latest_model_version_def)
next
  show "(\<exists>response. fst (run_simulation request p now) = Inr response
                    \<and> status response = ''completed'')
         \<longleftrightarrow> server_capacity request < 2 ^ 1024 - 2 ^ 970"
  proof
    assume completes: "\<exists>response. fst (run_simulation request p now) = Inr response
                             \<and> status response = ''completed''"
    show "server_capacity request < 2 ^ 1024 - 2 ^ 970"
    proof (rule ccontr)
      assume "\<not> server_capacity request < 2 ^ 1024 - 2 ^ 970"
      then have big: "2 ^ 1024 - 2 ^ 970 \<le> server_capacity request" by simp
      show False
      proof (cases "server_capacity request < 10 ^ int_max_str_digits")
        case True
        from run_simulation_overflow [OF big True] completes show False by auto
      next
        case False
        with assms have "10 ^ int_max_str_digits \<le> \<bar>server_capacity request\<bar>" by simp
        from run_simulation_unformattable [OF this] completes show False by auto
      qed
    qed
  next
    assume "server_capacity request < 2 ^ 1024 - 2 ^ 970"
    with assms show "\<exists>response. fst (run_simulation request p now) = Inr response
                               \<and> status response = ''completed''"
      by (rule run_simulation_in_float_range)
  qed
next
  assume "2 ^ 1024 - 2 ^ 970 \<le> server_capacity request
          \<and> server_capacity request < 10 ^ int_max_str_digits"
  then show "fst (run_simulation request p now)
                = Inl (Http (HTTPException 500 (SimulationFailed OverflowError)))"
    using run_simulation_overflow by blast
qed

theorem run_simulation_completes_witness:
  "0 < server_capacity \<lparr>server_capacity = 5, model_name = ''No such model'',
                         experiment_name = ''No such experiment''\<rparr>
   \<and> server_capacity \<lparr>server_capacity = 5, model_name = ''No such model'',
                       experiment_name = ''No such experiment''\<rparr> < 2 ^ 1024 - 2 ^ 970
   \<and> (\<exists>response. fst (run_simulation \<lparr>server_capacity = 5, model_name = ''No such model'',
                          experiment_name = ''No such experiment''\<rparr> get_cloud_client 7)
                      = Inr response
                  \<and> status response = ''completed'')
   \<and> 0 < server_capacity \<lparr>server_capacity = 2 ^ 1024 - 2 ^ 970, model_name = ''No such model'',
                           experiment_name = ''No such experiment''\<rparr>
   \<and> 2 ^ 1024 - 2 ^ 970
       \<le> server_capacity \<lparr>server_capacity = 2 ^ 1024 - 2 ^ 970, model_name = ''No such model'',
                            experiment_name = ''No such experiment''\<rparr>
   \<and> server_capacity \<lparr>server_capacity = 2 ^ 1024 - 2 ^ 970, model_name = ''No such model'',
                       experiment_name = ''No such experiment''\<rparr> < 10 ^ int_max_str_digits
   \<and> fst (run_simulation \<lparr>server_capacity = 2 ^ 1024 - 2 ^ 970, model_name = ''No such model'',
                            experiment_name = ''No such experiment''\<rparr> get_cloud_client 7)
       = Inl (Http (HTTPException 500 (SimulationFailed OverflowError)))"
proof -
  have lim: "(2 ^ 1024 - 2 ^ 970 :: int) < 10 ^ int_max_str_digits"
  proof -
    have "(2 ^ 1024 - 2 ^ 970 :: int) \<le> 2 ^ 1024" by simp
    with two_power_1024_below_str_limit show ?thesis by linarith
  qed
  from run_simulation_completes
         [where request = "\<lparr>server_capacity = 5, model_name = ''No such model'',
                             experiment_name = ''No such experiment''\<rparr>"
            and p = get_cloud_client and now = 7]
       run_simulation_completes
         [where request = "\<lparr>server_capacity = 2 ^ 1024 - 2 ^ 970,
                             model_name = ''No such model'',
                             experiment_name = ''No such experiment''\<rparr>"
            and p = get_cloud_client and now = 7]
       lim
  show ?thesis by simp
qed

text \<open>
  Claim C10 as stated says that every request with a valid \<^verbatim>\<open>server_capacity\<close> is
  answered with \<^verbatim>\<open>"completed"\<close>. The request with \<^verbatim>\<open>server_capacity = 2 ** 1024\<close> passes
  validation and is positive, yet \<^verbatim>\<open>server_capacity * 1.5\<close> in the mock raises
  \<^verbatim>\<open>OverflowError\<close>, which the handler turns into status 500.
\<close>

theorem huge_capacity_fails:
  "SimulationRequest_validate \<lparr>body_server_capacity = Given (2 ^ 1024), body_model_name = Missing,
                                body_experiment_name = Missing\<rparr>
     = Inr \<lparr>server_capacity = 2 ^ 1024, model_name = ''Service System Demo'',
            experiment_name = ''Simulation''\<rparr>
   \<and> 0 < server_capacity \<lparr>server_capacity = 2 ^ 1024, model_name = ''Service System Demo'',
                           experiment_name = ''Simulation''\<rparr>
   \<and> fst (run_simulation \<lparr>server_capacity = 2 ^ 1024, model_name = ''Service System Demo'',
                            experiment_name = ''Simulation''\<rparr> get_cloud_client 7)
       = Inl (Http (HTTPException 500 (SimulationFailed OverflowError)))"
proof -
  have "fst (run_simulation \<lparr>server_capacity = 2 ^ 1024, model_name = ''Service System Demo'',
                              experiment_name = ''Simulation''\<rparr> get_cloud_client 7)
          = Inl (Http (HTTPException 500 (SimulationFailed OverflowError)))"
  proof (rule run_simulation_overflow)
    show "2 ^ 1024 - 2 ^ 970
            \<le> server_capacity \<lparr>server_capacity = 2 ^ 1024, model_name = ''Service System Demo'',
                                 experiment_name = ''Simulation''\<rparr>"
      by simp
    show "server_capacity \<lparr>server_capacity = 2 ^ 1024, model_name = ''Service System Demo'',
                            experiment_name = ''Simulation''\<rparr> < 10 ^ int_max_str_digits"
      using two_power_1024_below_str_limit by simp
  qed
  then show ?thesis
    by (simp add: SimulationRequest_validate_def)
qed

section \<open>Properties of the item service\<close>

lemma item_id_le_foldr_max: "row \<in> set db \<Longrightarrow> item_id row \<le> foldr max (map item_id db) 0"
  by (induction db) auto

lemma new_id_fresh: "row \<in> set db \<Longrightarrow> item_id row \<noteq> new_id db"
  using item_id_le_foldr_max [of row db] by (simp add: new_id_def)

lemma find_new_id: "find (\<lambda>row. item_id row = new_id db) db = None"
  using new_id_fresh [of _ db] by (auto simp: find_None_iff)

lemma find_append:
  "find P (xs @ ys) = (case find P xs of None \<Rightarrow> find P ys | Some x \<Rightarrow> Some x)"
  by (induction xs) simp_all

lemma map_fresh:
  "map (\<lambda>r. if item_id r = new_id db then f r else r) db = db"
  using new_id_fresh [of _ db] by (simp add: map_idI)

lemma filter_fresh: "filter (\<lambda>r. item_id r \<noteq> new_id db) db = db"
  using new_id_fresh [of _ db] by (simp add: filter_id_conv)

text \<open>
  Claim C5. The item round trip, from any store: create(title="A", price=10) stores a
  record under the assigned id \<open>i\<close>, and get on \<open>i\<close> returns title "A", price 10 and a null
  description; after the partial update that sets only price to 20, get returns title "A"
  and price 20, the fields not supplied unchanged; after delete of \<open>i\<close>, get on \<open>i\<close> fails
  with status 404.
\<close>

theorem item_round_trip:
  "(let i = new_id db;
        (r1, db1) = create_item \<lparr>c_title = ''A'', c_description = None, c_price = Some 10\<rparr> db;
        (r2, db2) = update_item i \<lparr>u_title = None, u_description = None, u_price = Some 20\<rparr> db1;
        (r3, db3) = delete_item i db2
    in r1 = Inr \<lparr>item_id = i, title = ''A'', description = None, price = Some 10\<rparr>
     \<and> read_item i db1 = Inr \<lparr>item_id = i, title = ''A'', description = None, price = Some 10\<rparr>
     \<and> r2 = Inr \<lparr>item_id = i, title = ''A'', description = None, price = Some 20\<rparr>
     \<and> read_item i db2 = Inr \<lparr>item_id = i, title = ''A'', description = None, price = Some 20\<rparr>
     \<and> r3 = Inr ''Item deleted successfully''
     \<and> read_item i db3 = Inl (HTTPException 404 ItemNotFound))"
  by (simp add: create_item_def crud_create_item_def read_item_def crud_get_item_def
        update_item_def crud_update_item_def apply_update_def delete_item_def
        crud_delete_item_def Let_def find_append find_new_id map_fresh filter_fresh)

end
